theory Spec2Isabelle
  imports Main "HOL-Library.Word" "HOL-Library.Sublist"
begin

section \<open>Data model of the client (libdbusmenu-glib/client.c)\<close>

text \<open>
  A property value is a GVariant; only the kinds the menu protocol carries are kept.
  A property set, as it travels in a reply (\<^verbatim>\<open>a{sv}\<close>), is a list of key/value pairs.
\<close>

datatype variant = VString string | VInt int | VBool bool

type_synonym properties = "(string \<times> variant) list"

text \<open>
  A \<^verbatim>\<open>GError\<close>. \<open>LocalError\<close> is an error the client builds itself with
  \<^verbatim>\<open>g_set_error_literal(&localerror, error_domain(), 0, message)\<close>; \<open>DBusError\<close> is an
  error handed back by \<^verbatim>\<open>g_dbus_proxy_call_finish\<close>.
\<close>

datatype gerror = LocalError string | DBusError string

text \<open>
  What a \<^verbatim>\<open>properties_func\<close> is called with: either \<^verbatim>\<open>(properties, NULL)\<close> or
  \<^verbatim>\<open>(NULL, error)\<close>; the source never passes both or neither.
\<close>

datatype reply = Props properties | Err gerror

text \<open>
  A menu item. \<open>mi_inst\<close> is the identity of the object (its address): two values stand for
  the same \<^verbatim>\<open>DbusmenuMenuitem\<close> exactly when they carry the same \<open>mi_inst\<close>. \<open>mi_id\<close> is the
  id the server gave it. The children are owned by the parent, in order.
\<close>

datatype menuitem =
  Menuitem (mi_inst: nat) (mi_id: int) (mi_props: properties)
           (mi_children: "menuitem list") (mi_root: bool) (mi_realized: bool)

text \<open>
  The function pointer and the \<^verbatim>\<open>user_data\<close> of a listener. The client registers three
  callbacks: \<^verbatim>\<open>menuitem_get_properties_cb\<close> and \<^verbatim>\<open>menuitem_get_properties_replace_cb\<close>
  with the item as user data, and \<^verbatim>\<open>menuitem_get_properties_new_cb\<close> with a
  \<^verbatim>\<open>newItemPropData\<close> (item and parent).
\<close>

datatype callback =
    Menuitem_get_properties_cb nat
  | Menuitem_get_properties_replace_cb nat
  | Menuitem_get_properties_new_cb nat "nat option"

record listener =
  lid :: int
  callback :: callback
  replied :: bool

datatype signal = LAYOUT_UPDATED | ROOT_CHANGED "nat option" | NEW_MENUITEM nat

datatype warning =
    Group_properties_error gerror
  | Unable_to_find_listener int
  | Already_replied int
  | Generating_properties_error int
  | Asking_twice int
  | Idle_got_no_listeners
  | Getting_layout_failed gerror
  | Unable_to_parse_layout
  | Unable_to_get_root_node

text \<open>
  \<^verbatim>\<open>struct _DbusmenuClientPrivate\<close>, with the effects of the code on the outside world kept
  in the state: the calls sent over the bus, the calls made through a listener's function
  pointer, the signals emitted and the warnings logged.

  \<^item> \<open>menuproxy\<close> and \<open>name_owner\<close>: whether \<^verbatim>\<open>priv->menuproxy\<close> is non-NULL and whether
    \<^verbatim>\<open>g_dbus_proxy_get_name_owner\<close> returns a name;
  \<^item> \<open>layoutcall\<close>: the \<^verbatim>\<open>GCancellable\<close> of the layout call, \<open>None\<close> for NULL;
  \<^item> \<open>current_revision\<close>, \<open>my_revision\<close>: \<^verbatim>\<open>gint\<close>, compared as signed 32-bit values;
  \<^item> \<open>delayed_property_listeners\<close>: the \<^verbatim>\<open>GArray\<close> pointer, \<open>None\<close> for NULL;
  \<^item> \<open>delayed_idle\<close>: the id of the idle source, 0 for none;
  \<^item> \<open>layout_calls\<close>: the GetLayout calls sent whose callback has not run yet;
  \<^item> \<open>layout_cancelled\<close>: the calls whose cancellable was cancelled;
  \<^item> \<open>group_calls\<close>: the GetGroupProperties calls sent, each with the ids it carries and
    the listener array handed to its callback;
  \<^item> \<open>callbacks_run\<close>: every call through a listener's function pointer, in order;
  \<^item> \<open>segfault\<close>: a NULL array pointer was dereferenced.
\<close>

record client =
  root :: "menuitem option"
  menuproxy :: bool
  name_owner :: bool
  layoutcall :: "nat option"
  current_revision :: "32 word"
  my_revision :: "32 word"
  delayed_property_listeners :: "listener list option"
  delayed_idle :: nat
  next_inst :: nat
  source_seq :: nat
  call_seq :: nat
  layout_calls :: "nat list"
  layout_cancelled :: "nat list"
  group_calls :: "(int list \<times> listener list) list"
  callbacks_run :: "(callback \<times> reply) list"
  signals :: "signal list"
  warnings :: "warning list"
  segfault :: bool

definition MAX_PROPERTIES_TO_QUEUE :: nat where
  "MAX_PROPERTIES_TO_QUEUE = 100"

text \<open>\<^verbatim>\<open>dbusmenu_client_init\<close>: no root, no proxy, both revisions 0, an empty listener array.\<close>

definition dbusmenu_client_init :: client where
  "dbusmenu_client_init =
     \<lparr>root = None, menuproxy = False, name_owner = False, layoutcall = None,
      current_revision = 0, my_revision = 0,
      delayed_property_listeners = Some [], delayed_idle = 0,
      next_inst = 0, source_seq = 0, call_seq = 0, layout_calls = [], layout_cancelled = [],
      group_calls = [], callbacks_run = [], signals = [], warnings = [], segfault = False\<rparr>"

definition g_warning :: "warning \<Rightarrow> client \<Rightarrow> client" where
  "g_warning w c = c\<lparr>warnings := warnings c @ [w]\<rparr>"

definition g_signal_emit :: "signal \<Rightarrow> client \<Rightarrow> client" where
  "g_signal_emit s c = c\<lparr>signals := signals c @ [s]\<rparr>"

text \<open>\<^verbatim>\<open>listener->callback(properties, error, listener->user_data)\<close>.\<close>

definition call_callback :: "callback \<Rightarrow> reply \<Rightarrow> client \<Rightarrow> client" where
  "call_callback cb r c = c\<lparr>callbacks_run := callbacks_run c @ [(cb, r)]\<rparr>"

section \<open>The property request batcher\<close>

text \<open>
  \<^verbatim>\<open>find_listener(listeners, index, id)\<close>: the first listener at or after \<open>index\<close> with that
  id. The source returns a pointer into the array; the model returns the index.
\<close>

function find_listener :: "listener list \<Rightarrow> nat \<Rightarrow> int \<Rightarrow> nat option" where
  "find_listener listeners index i =
     (if index \<ge> length listeners then None
      else if lid (listeners ! index) = i then Some index
      else find_listener listeners (index + 1) i)"
  by pat_completeness auto
termination
  by (relation "measure (\<lambda>(listeners, index, i). length listeners - index)") auto

declare find_listener.simps [simp del]

text \<open>
  \<^verbatim>\<open>get_properties_idle\<close>: the idle handler. It sends one GetGroupProperties call with the
  ids of all queued listeners, hands the array to the call's callback and starts a new,
  empty array. The result is the handler's \<^verbatim>\<open>gboolean\<close>.
\<close>

definition get_properties_idle :: "client \<Rightarrow> bool \<times> client" where
  "get_properties_idle c =
     (if \<not> menuproxy c then (True, c)
      else case delayed_property_listeners c of
        None \<Rightarrow> (False, c\<lparr>segfault := True\<rparr>)
      | Some ls \<Rightarrow>
          if length ls = 0 then (False, g_warning Idle_got_no_listeners c)
          else (False, c\<lparr>group_calls := group_calls c @ [(map lid ls, ls)],
                          delayed_property_listeners := Some [],
                          delayed_idle := 0\<rparr>))"

text \<open>\<^verbatim>\<open>get_properties_flush\<close>: run the idle handler now, if one is scheduled.\<close>

definition get_properties_flush :: "client \<Rightarrow> client" where
  "get_properties_flush c =
     (if delayed_idle c = 0 then c
      else snd (get_properties_idle (c\<lparr>delayed_idle := 0\<rparr>)))"

text \<open>\<^verbatim>\<open>g_idle_add(get_properties_idle, client)\<close>: a new source, with a fresh non-zero id.\<close>

definition g_idle_add :: "client \<Rightarrow> client" where
  "g_idle_add c = c\<lparr>source_seq := Suc (source_seq c), delayed_idle := Suc (source_seq c)\<rparr>"

text \<open>
  \<^verbatim>\<open>get_properties_globber\<close>. Every caller passes \<^verbatim>\<open>properties == NULL\<close>, and
  \<^verbatim>\<open>delayed_property_list\<close> is never filled, so the branch on it changes nothing and is
  left out.
\<close>

definition get_properties_globber :: "client \<Rightarrow> int \<Rightarrow> callback \<Rightarrow> client" where
  "get_properties_globber c i cb =
     (case delayed_property_listeners c of
        None \<Rightarrow> c\<lparr>segfault := True\<rparr>
      | Some ls \<Rightarrow>
          if find_listener ls 0 i \<noteq> None then
            call_callback cb (Err (LocalError ''ID already queued'')) (g_warning (Asking_twice i) c)
          else
            let ls1 = ls @ [\<lparr>lid = i, callback = cb, replied = False\<rparr>];
                c1 = c\<lparr>delayed_property_listeners := Some ls1\<rparr>;
                c2 = (if delayed_idle c1 = 0 then g_idle_add c1 else c1)
            in if length ls1 = MAX_PROPERTIES_TO_QUEUE then get_properties_flush c2 else c2)"








section \<open>Teardown\<close>

text \<open>
  \<^verbatim>\<open>dbusmenu_client_dispose\<close>. The block that calls the listeners back is guarded by
  \<^verbatim>\<open>priv->delayed_property_listeners == NULL\<close>; inside it the loop reads
  \<^verbatim>\<open>priv->delayed_property_listeners->len\<close>. The session bus, the bus watch and the type
  handlers are not part of the model.
\<close>

definition dbusmenu_client_dispose :: "client \<Rightarrow> client" where
  "dbusmenu_client_dispose c =
     (let c1 = (if delayed_idle c \<noteq> 0 then c\<lparr>delayed_idle := 0\<rparr> else c);
          c2 = (case delayed_property_listeners c1 of
                  None \<Rightarrow> c1\<lparr>segfault := True\<rparr>
                | Some ls \<Rightarrow> c1);
          c3 = (case layoutcall c2 of
                  None \<Rightarrow> c2
                | Some t \<Rightarrow> c2\<lparr>layout_cancelled := layout_cancelled c2 @ [t], layoutcall := None\<rparr>)
      in c3\<lparr>menuproxy := False, name_owner := False, root := None\<rparr>)"

text \<open>The position of the first occurrence, as \<^verbatim>\<open>g_list_index\<close> gives it for an element of the list.\<close>

fun index_of :: "'a \<Rightarrow> 'a list \<Rightarrow> nat" where
  "index_of x [] = 0"
| "index_of x (y # ys) = (if x = y then 0 else Suc (index_of x ys))"

section \<open>Menu items (libdbusmenu-glib/menuitem.c, whose source is not in the repository files)\<close>

text \<open>
  Modelled from the spec: \<^verbatim>\<open>dbusmenu_client_menuitem_new\<close>, the constructor of a menu item
  ("realized: boolean, false until the node's initial property fetch has completed"): a new
  object with the given id, no property, no child.
\<close>

definition dbusmenu_client_menuitem_new :: "int \<Rightarrow> nat \<Rightarrow> menuitem" where
  "dbusmenu_client_menuitem_new i inst = Menuitem inst i [] [] False False"

definition set_children :: "menuitem \<Rightarrow> menuitem list \<Rightarrow> menuitem" where
  "set_children item cs =
     Menuitem (mi_inst item) (mi_id item) (mi_props item) cs (mi_root item) (mi_realized item)"

definition set_props :: "menuitem \<Rightarrow> properties \<Rightarrow> menuitem" where
  "set_props item ps =
     Menuitem (mi_inst item) (mi_id item) ps (mi_children item) (mi_root item) (mi_realized item)"

definition dbusmenu_menuitem_set_root :: "menuitem \<Rightarrow> bool \<Rightarrow> menuitem" where
  "dbusmenu_menuitem_set_root item r =
     Menuitem (mi_inst item) (mi_id item) (mi_props item) (mi_children item) r (mi_realized item)"

text \<open>
  Modelled from the spec: \<^verbatim>\<open>g_list_insert\<close> as \<^verbatim>\<open>dbusmenu_menuitem_child_add_position\<close>
  uses it ("position inserted at the matching index"); a position past the end appends.
\<close>

definition g_list_insert :: "'a list \<Rightarrow> 'a \<Rightarrow> nat \<Rightarrow> 'a list" where
  "g_list_insert xs x position = take position xs @ x # drop position xs"

text \<open>
  Modelled from the spec: \<^verbatim>\<open>dbusmenu_menuitem_child_add_position\<close> ("children: ordered
  sequence ... replaceable by explicit position").
\<close>

definition dbusmenu_menuitem_child_add_position :: "menuitem \<Rightarrow> menuitem \<Rightarrow> nat \<Rightarrow> menuitem" where
  "dbusmenu_menuitem_child_add_position mi child position =
     set_children mi (g_list_insert (mi_children mi) child position)"

text \<open>
  Modelled from the spec: \<^verbatim>\<open>dbusmenu_menuitem_child_reorder\<close> ("move to the correct
  position"): a child that is not in the list, or is already at the position, changes
  nothing; otherwise it is taken out and put back at the position.
\<close>

definition dbusmenu_menuitem_child_reorder :: "menuitem \<Rightarrow> menuitem \<Rightarrow> nat \<Rightarrow> menuitem" where
  "dbusmenu_menuitem_child_reorder mi child position =
     (if child \<notin> set (mi_children mi) then mi
      else if index_of child (mi_children mi) = position then mi
      else set_children mi (g_list_insert (remove1 child (mi_children mi)) child position))"

text \<open>
  Modelled from the spec: \<^verbatim>\<open>dbusmenu_menuitem_child_delete\<close> ("removed (detached and
  freed)").
\<close>

definition dbusmenu_menuitem_child_delete :: "menuitem \<Rightarrow> menuitem \<Rightarrow> menuitem" where
  "dbusmenu_menuitem_child_delete mi child = set_children mi (remove1 child (mi_children mi))"


text \<open>
  Modelled from the spec: the property table of a menu item ("mapping from string key to a
  typed value; keys unique"): \<^verbatim>\<open>dbusmenu_menuitem_properties_list\<close> gives the keys,
  \<^verbatim>\<open>dbusmenu_menuitem_property_remove\<close> drops a key, and
  \<^verbatim>\<open>dbusmenu_menuitem_property_set_variant\<close> binds a key, replacing an older binding.
\<close>

definition dbusmenu_menuitem_properties_list :: "menuitem \<Rightarrow> string list" where
  "dbusmenu_menuitem_properties_list mi = map fst (mi_props mi)"

definition dbusmenu_menuitem_property_remove :: "menuitem \<Rightarrow> string \<Rightarrow> menuitem" where
  "dbusmenu_menuitem_property_remove mi property =
     set_props mi (filter (\<lambda>kv. fst kv \<noteq> property) (mi_props mi))"

definition dbusmenu_menuitem_property_set_variant :: "menuitem \<Rightarrow> string \<Rightarrow> variant \<Rightarrow> menuitem" where
  "dbusmenu_menuitem_property_set_variant mi property v =
     set_props mi (filter (\<lambda>kv. fst kv \<noteq> property) (mi_props mi) @ [(property, v)])"

text \<open>
  Modelled from the spec: \<^verbatim>\<open>dbusmenu_menuitem_find_id\<close>, the item with that id in the tree
  under \<open>mi\<close> ("a node's id plus the session's identity uniquely addresses it"), searched
  depth first.
\<close>

fun dbusmenu_menuitem_find_id :: "menuitem \<Rightarrow> int \<Rightarrow> menuitem option"
  and find_id_list :: "menuitem list \<Rightarrow> int \<Rightarrow> menuitem option" where
  "dbusmenu_menuitem_find_id (Menuitem n d ps cs r z) i =
     (if d = i then Some (Menuitem n d ps cs r z) else find_id_list cs i)"
| "find_id_list [] i = None"
| "find_id_list (m # ms) i =
     (case dbusmenu_menuitem_find_id m i of Some x \<Rightarrow> Some x | None \<Rightarrow> find_id_list ms i)"

section \<open>The callbacks the client registers with the batcher\<close>

text \<open>
  \<^verbatim>\<open>menuitem_get_properties_cb\<close>: on an error nothing is set; otherwise every pair of the
  reply is set on the item.
\<close>

fun set_all_properties :: "properties \<Rightarrow> menuitem \<Rightarrow> menuitem" where
  "set_all_properties [] item = item"
| "set_all_properties ((key, v) # ps) item =
     set_all_properties ps (dbusmenu_menuitem_property_set_variant item key v)"

definition menuitem_get_properties_cb :: "reply \<Rightarrow> menuitem \<Rightarrow> menuitem" where
  "menuitem_get_properties_cb r item =
     (case r of Err e \<Rightarrow> item | Props ps \<Rightarrow> set_all_properties ps item)"

text \<open>
  \<^verbatim>\<open>menuitem_get_properties_replace_cb\<close>. The \<^verbatim>\<open>for\<close> loop over the property names runs
  while \<^verbatim>\<open>current_props != NULL && have_error == FALSE\<close>.
\<close>

fun remove_current_props :: "string list \<Rightarrow> bool \<Rightarrow> menuitem \<Rightarrow> menuitem" where
  "remove_current_props [] have_error item = item"
| "remove_current_props (p # current_props) have_error item =
     (if have_error then item
      else remove_current_props current_props have_error
             (dbusmenu_menuitem_property_remove item p))"

definition menuitem_get_properties_replace_cb :: "reply \<Rightarrow> menuitem \<Rightarrow> menuitem" where
  "menuitem_get_properties_replace_cb r item =
     (let have_error = (case r of Err e \<Rightarrow> True | Props ps \<Rightarrow> False);
          item1 = remove_current_props (dbusmenu_menuitem_properties_list item) have_error item
      in if \<not> have_error then menuitem_get_properties_cb r item1 else item1)"

section \<open>The layout description\<close>

text \<open>
  An \<^verbatim>\<open>xmlNode\<close>: whether its type is \<^verbatim>\<open>XML_ELEMENT_NODE\<close>, its name, its attributes and
  its children. An attribute is its name and, when it has a content node, the number
  \<^verbatim>\<open>g_ascii_strtoll\<close> reads from the content.
\<close>

datatype xml =
  XmlNode (x_element: bool) (x_name: string) (x_properties: "(string \<times> int option) list")
          (x_children: "xml list")

text \<open>
  The attribute loop of \<^verbatim>\<open>parse_node_get_id\<close>: the first attribute named \<^verbatim>\<open>id\<close> decides.
  The \<^verbatim>\<open>gint64\<close> is cast to \<^verbatim>\<open>guint\<close> and stored in a \<^verbatim>\<open>gint\<close>.
\<close>

fun id_attribute :: "(string \<times> int option) list \<Rightarrow> int" where
  "id_attribute [] = -1"
| "id_attribute ((name, content) # attribs) =
     (if name = ''id'' then
        (case content of Some v \<Rightarrow> sint (word_of_int v :: 32 word) | None \<Rightarrow> -1)
      else id_attribute attribs)"

definition parse_node_get_id :: "xml option \<Rightarrow> int" where
  "parse_node_get_id node =
     (case node of
        None \<Rightarrow> -1
      | Some n \<Rightarrow>
          if \<not> x_element n then -1
          else if x_name n \<noteq> ''menu'' then -1
          else id_attribute (x_properties n))"

section \<open>Reconciling the tree with a layout\<close>

text \<open>\<^verbatim>\<open>parse_layout_new_child\<close>: a new item, with its properties asked for.\<close>

definition parse_layout_new_child :: "int \<Rightarrow> client \<Rightarrow> menuitem option \<Rightarrow> client \<times> menuitem" where
  "parse_layout_new_child i c parent =
     (let item = dbusmenu_client_menuitem_new i (next_inst c);
          item1 = (if parent = None then dbusmenu_menuitem_set_root item True else item);
          c1 = c\<lparr>next_inst := Suc (next_inst c)\<rparr>
      in (get_properties_globber c1 i
            (Menuitem_get_properties_new_cb (mi_inst item1) (map_option mi_inst parent)),
          item1))"

text \<open>\<^verbatim>\<open>parse_layout_update\<close>: refresh the properties of a recycled item.\<close>

definition parse_layout_update :: "menuitem \<Rightarrow> client \<Rightarrow> client" where
  "parse_layout_update item c =
     get_properties_globber c (mi_id item) (Menuitem_get_properties_replace_cb (mi_inst item))"

text \<open>
  The first loop of \<^verbatim>\<open>parse_layout_xml\<close>, over the children of the XML node: the state is
  the client, the item and \<^verbatim>\<open>oldchildren\<close>. A node without a valid id leaves \<^verbatim>\<open>position\<close>
  as it is (the source decrements it before the loop increments it). The search for a
  child to recycle takes the first old child with the id. The source compares pointers
  where the model compares items: no item changes during the loop, so equal values stand
  for the same object, and \<^verbatim>\<open>g_list_remove\<close> is \<open>remove1\<close>.
\<close>

fun parse_layout_xml_children ::
  "xml list \<Rightarrow> nat \<Rightarrow> client \<times> menuitem \<times> menuitem list \<Rightarrow> client \<times> menuitem \<times> menuitem list" where
  "parse_layout_xml_children [] position s = s"
| "parse_layout_xml_children (children # rest) position (c, item, oldchildren) =
     (let childid = parse_node_get_id (Some children) in
      if childid < 0 then parse_layout_xml_children rest position (c, item, oldchildren)
      else
        (case find (\<lambda>cs_mi. childid = mi_id cs_mi) oldchildren of
           None \<Rightarrow>
             (case parse_layout_new_child childid c (Some item) of
                (c1, childmi) \<Rightarrow>
                  parse_layout_xml_children rest (position + 1)
                    (c1, dbusmenu_menuitem_child_add_position item childmi position, oldchildren))
         | Some childmi \<Rightarrow>
             parse_layout_xml_children rest (position + 1)
               (parse_layout_update childmi c,
                dbusmenu_menuitem_child_reorder item childmi position,
                remove1 childmi oldchildren)))"

text \<open>The second loop: the old children that are left are deleted from the item.\<close>

fun delete_oldchildren :: "menuitem list \<Rightarrow> menuitem \<Rightarrow> menuitem" where
  "delete_oldchildren [] item = item"
| "delete_oldchildren (oldmi # oldchildleft) item =
     delete_oldchildren oldchildleft (dbusmenu_menuitem_child_delete item oldmi)"

text \<open>
  \<^verbatim>\<open>parse_layout_xml\<close>. The result is the item, or \<open>None\<close> where the source returns NULL;
  the item is then untouched. \<open>parse_layout_xml_recurse\<close> is the last loop, which walks the
  XML children and the children of the item side by side; the source ignores what the
  recursive call returns, since the child is changed in place.
\<close>

fun parse_layout_xml ::
    "client \<Rightarrow> xml \<Rightarrow> menuitem \<Rightarrow> menuitem option \<Rightarrow> client \<times> menuitem option"
  and parse_layout_xml_recurse ::
    "client \<Rightarrow> xml list \<Rightarrow> menuitem list \<Rightarrow> menuitem \<Rightarrow> client \<times> menuitem list" where
  "parse_layout_xml c (XmlNode el nm attrs kids) item parent =
     (let i = parse_node_get_id (Some (XmlNode el nm attrs kids)) in
      if i < 0 then (c, None)
      else if i \<noteq> mi_id item then (c, None)
      else
        (case parse_layout_xml_children kids 0 (c, item, mi_children item) of
           (c1, item1, oldchildren) \<Rightarrow>
             let item2 = delete_oldchildren oldchildren item1;
                 c2 = (if parent \<noteq> None \<and> mi_id (the parent) = 0
                       then get_properties_flush c1 else c1)
             in (case parse_layout_xml_recurse c2 kids (mi_children item2) item2 of
                   (c3, childmis) \<Rightarrow> (c3, Some (set_children item2 childmis)))))"
| "parse_layout_xml_recurse c [] childmis item = (c, childmis)"
| "parse_layout_xml_recurse c (children # rest) [] item = (c, [])"
| "parse_layout_xml_recurse c (children # rest) (childmi # childmis) item =
     (if parse_node_get_id (Some children) < 0
      then parse_layout_xml_recurse c rest (childmi # childmis) item
      else
        (case parse_layout_xml c children childmi (Some item) of
           (c1, r) \<Rightarrow>
             (case parse_layout_xml_recurse c1 rest childmis item of
                (c2, childmis') \<Rightarrow>
                  (c2, (case r of None \<Rightarrow> childmi | Some childmi' \<Rightarrow> childmi') # childmis'))))"


section \<open>The session: layout calls and revisions\<close>

text \<open>
  \<^verbatim>\<open>update_layout\<close>: send GetLayout for the root, unless there is no proxy, no name owner,
  or a layout call is marked in \<^verbatim>\<open>priv->layoutcall\<close>. The new cancellable is named by the
  number of the call.
\<close>

definition update_layout :: "client \<Rightarrow> client" where
  "update_layout c =
     (if \<not> menuproxy c then c
      else if \<not> name_owner c then c
      else if layoutcall c \<noteq> None then c
      else c\<lparr>layoutcall := Some (call_seq c),
              layout_calls := layout_calls c @ [call_seq c],
              call_seq := Suc (call_seq c)\<rparr>)"

text \<open>
  \<^verbatim>\<open>layout_update\<close>, the handler of the LayoutUpdated signal. The \<^verbatim>\<open>guint\<close> revision is
  stored in a \<^verbatim>\<open>gint\<close>; the comparison is signed.
\<close>

definition layout_update :: "32 word \<Rightarrow> client \<Rightarrow> client" where
  "layout_update revision c =
     (let c1 = c\<lparr>current_revision := revision\<rparr> in
      if my_revision c1 <s current_revision c1 then update_layout c1 else c1)"

text \<open>
  \<^verbatim>\<open>parse_layout\<close>. \<open>layout\<close> is the root element libxml2 finds in the text, \<open>None\<close> when
  there is none. The two roots are compared as pointers. The result is always 1.
\<close>

definition parse_layout :: "client \<Rightarrow> xml option \<Rightarrow> nat \<times> client" where
  "parse_layout c layout =
     (let c0 = (if layout = None then g_warning Unable_to_get_root_node c else c);
          oldroot = root c0
      in case (case root c0 of
                 None \<Rightarrow> parse_layout_new_child 0 c0 None
               | Some r \<Rightarrow> (parse_layout_update r c0, r)) of
           (c1, r) \<Rightarrow>
             (case (case layout of
                      None \<Rightarrow> (c1, None)
                    | Some node \<Rightarrow> parse_layout_xml c1 node r None) of
                (c2, res) \<Rightarrow>
                  let c3 = c2\<lparr>root := res\<rparr>;
                      c4 = (if res = None then g_warning Unable_to_parse_layout c3 else c3)
                  in (1, if map_option mi_inst res \<noteq> map_option mi_inst oldroot
                         then g_signal_emit (ROOT_CHANGED (map_option mi_inst res)) c4
                         else c4)))"

text \<open>
  What \<^verbatim>\<open>g_dbus_proxy_call_finish\<close> gives the callback of a GetLayout call: an error, or
  the revision and the layout.
\<close>

datatype layout_reply = LayoutError gerror | LayoutReply "32 word" "xml option"

text \<open>
  \<^verbatim>\<open>update_layout_cb\<close>. The label \<^verbatim>\<open>out:\<close> is reached on every path; it clears
  \<^verbatim>\<open>priv->layoutcall\<close>.
\<close>

definition update_layout_cb :: "layout_reply \<Rightarrow> client \<Rightarrow> client" where
  "update_layout_cb res c =
     (let c' =
        (case res of
           LayoutError e \<Rightarrow> g_warning (Getting_layout_failed e) c
         | LayoutReply revn xml \<Rightarrow>
             (case parse_layout c xml of
                (parseable, c1) \<Rightarrow>
                  if parseable = 0 then g_warning Unable_to_parse_layout c1
                  else
                    let c2 = g_signal_emit LAYOUT_UPDATED (c1\<lparr>my_revision := revn\<rparr>)
                    in if my_revision c2 <s current_revision c2 then update_layout c2 else c2))
      in c'\<lparr>layoutcall := None\<rparr>)"

text \<open>
  \<^verbatim>\<open>proxy_destroyed\<close>. \<open>is_menuproxy\<close> says whether the proxy given is \<^verbatim>\<open>priv->menuproxy\<close>.
  Cancelling the cancellable does not take the call back: GIO still runs its callback, with
  an error.
\<close>

definition proxy_destroyed :: "bool \<Rightarrow> client \<Rightarrow> client" where
  "proxy_destroyed is_menuproxy c =
     (let c1 = (if root c \<noteq> None
                then g_signal_emit LAYOUT_UPDATED (g_signal_emit (ROOT_CHANGED None) (c\<lparr>root := None\<rparr>))
                else c);
          c2 = (if is_menuproxy then
                  (case layoutcall c1 of
                     None \<Rightarrow> c1
                   | Some t \<Rightarrow> c1\<lparr>layout_cancelled := layout_cancelled c1 @ [t], layoutcall := None\<rparr>)
                else c1)
      in c2\<lparr>current_revision := 0, my_revision := 0\<rparr>)"

text \<open>
  \<^verbatim>\<open>menuproxy_name_changed_cb\<close>: \<open>owner\<close> says whether the proxy has a name owner now.
\<close>

definition menuproxy_name_changed_cb :: "bool \<Rightarrow> client \<Rightarrow> client" where
  "menuproxy_name_changed_cb owner c =
     (let c1 = c\<lparr>name_owner := owner\<rparr> in
      if \<not> owner then proxy_destroyed True c1 else update_layout c1)"

text \<open>
  \<^verbatim>\<open>menuproxy_build_cb\<close> for a proxy that was built: the proxy is stored, and the layout is
  asked for when the name has an owner.
\<close>

definition menuproxy_build_cb :: "bool \<Rightarrow> client \<Rightarrow> client" where
  "menuproxy_build_cb owner c =
     (let c1 = c\<lparr>menuproxy := True, name_owner := owner\<rparr> in
      if owner then update_layout c1 else c1)"

text \<open>\<^verbatim>\<open>id_update\<close>, the handler of the ItemUpdated signal.\<close>

definition id_update :: "int \<Rightarrow> client \<Rightarrow> client" where
  "id_update i c =
     (case root c of
        None \<Rightarrow> c
      | Some r \<Rightarrow>
          (case dbusmenu_menuitem_find_id r i of
             None \<Rightarrow> c
           | Some menuitem \<Rightarrow>
               get_properties_globber c i (Menuitem_get_properties_cb (mi_inst menuitem))))"

section \<open>The main loop\<close>

text \<open>
  What the main loop runs on the client, one handler after the other. \<open>Tick\<close> runs the idle
  source when one is scheduled; a handler that returns FALSE is removed by GLib.
  \<open>Layout_returns t r\<close> is the completion of the GetLayout call \<open>t\<close>: a call that was
  cancelled completes with an error. The completion of a group call is
  \<open>get_properties_callback\<close>, applied to the array of the call.
\<close>

definition tick :: "client \<Rightarrow> client" where
  "tick c = (if delayed_idle c = 0 then c else snd (get_properties_idle c))"

definition layout_returns :: "nat \<Rightarrow> layout_reply \<Rightarrow> client \<Rightarrow> client" where
  "layout_returns t res c = update_layout_cb res (c\<lparr>layout_calls := remove1 t (layout_calls c)\<rparr>)"

datatype event =
    Proxy_built bool
  | Name_owner_changed bool
  | Layout_updated "32 word"
  | Item_updated int
  | Tick
  | Layout_returns nat layout_reply

fun step :: "event \<Rightarrow> client \<Rightarrow> client" where
  "step (Proxy_built owner) c = menuproxy_build_cb owner c"
| "step (Name_owner_changed owner) c = menuproxy_name_changed_cb owner c"
| "step (Layout_updated revision) c = layout_update revision c"
| "step (Item_updated i) c = id_update i c"
| "step Tick c = tick c"
| "step (Layout_returns t res) c = layout_returns t res c"

text \<open>
  An event the main loop can deliver in a state: signals of the proxy need the proxy, and a
  layout call returns once, after it was sent; a cancelled call returns an error.
\<close>

fun enabled :: "event \<Rightarrow> client \<Rightarrow> bool" where
  "enabled (Proxy_built owner) c = (\<not> menuproxy c)"
| "enabled (Name_owner_changed owner) c = (menuproxy c \<and> name_owner c \<noteq> owner)"
| "enabled (Layout_updated revision) c = (menuproxy c \<and> name_owner c)"
| "enabled (Item_updated i) c = (menuproxy c \<and> name_owner c)"
| "enabled Tick c = True"
| "enabled (Layout_returns t res) c =
     (t \<in> set (layout_calls c) \<and>
      (t \<in> set (layout_cancelled c) \<longrightarrow> (case res of LayoutError e \<Rightarrow> True | LayoutReply revn xml \<Rightarrow> False)))"

fun run :: "event list \<Rightarrow> client \<Rightarrow> client" where
  "run [] c = c"
| "run (e # es) c = run es (step e c)"

fun feasible :: "event list \<Rightarrow> client \<Rightarrow> bool" where
  "feasible [] c = True"
| "feasible (e # es) c = (enabled e c \<and> feasible es (step e c))"

text \<open>
  What a run says of the revisions, read off its events alone. \<open>last_notice es r\<close> is the
  revision of the last LayoutUpdated signal of \<open>es\<close>, and \<open>last_reply es r\<close> the revision of
  the last GetLayout reply of \<open>es\<close> that was not an error; either is 0 when the name has lost
  its owner since, and \<open>r\<close> when \<open>es\<close> holds neither such an event nor such a loss.
\<close>

fun last_notice :: "event list \<Rightarrow> 32 word \<Rightarrow> 32 word" where
  "last_notice [] r = r"
| "last_notice (Layout_updated revision # es) r = last_notice es revision"
| "last_notice (Name_owner_changed False # es) r = last_notice es 0"
| "last_notice (e # es) r = last_notice es r"

fun last_reply :: "event list \<Rightarrow> 32 word \<Rightarrow> 32 word" where
  "last_reply [] r = r"
| "last_reply (Layout_returns t (LayoutReply revn xml) # es) r = last_reply es revn"
| "last_reply (Name_owner_changed False # es) r = last_reply es 0"
| "last_reply (e # es) r = last_reply es r"


section \<open>Concrete states and inputs\<close>

text \<open>A layout with a root and no child.\<close>

definition ex_xml :: xml where
  "ex_xml = XmlNode True ''menu'' [(''id'', Some 0)] []"

text \<open>
  A client with a proxy and one listener queued for id 1, as \<^verbatim>\<open>id_update\<close> leaves it,
  with the idle source scheduled.
\<close>

definition ex_listener :: listener where
  "ex_listener = \<lparr>lid = 1, callback = Menuitem_get_properties_cb 7, replied = False\<rparr>"

definition ex_pending :: client where
  "ex_pending = dbusmenu_client_init\<lparr>menuproxy := True, name_owner := True,
     delayed_property_listeners := Some [ex_listener], delayed_idle := 1, source_seq := 1\<rparr>"

text \<open>A menu item with two properties.\<close>

definition ex_item :: menuitem where
  "ex_item = Menuitem 3 5 [(''label'', VString ''Open''), (''enabled'', VBool True)] [] False True"

section \<open>The history of the batcher\<close>

text \<open>
  \<open>pending\<close> is the current batch. \<open>accepted\<close> lists every listener the batcher has taken
  in since the client was made, in the order of the requests: the arrays of the group calls
  sent, then the current batch. Sending a batch moves its listeners from the second part to
  the first and leaves the list as it is; only a request that is taken in makes it longer,
  at its end.
\<close>

definition pending :: "client \<Rightarrow> listener list" where
  "pending c = (case delayed_property_listeners c of None \<Rightarrow> [] | Some ls \<Rightarrow> ls)"

definition accepted :: "client \<Rightarrow> listener list" where
  "accepted c = concat (map snd (group_calls c)) @ pending c"

text \<open>
  \<open>batcher_only c c'\<close>: from \<open>c\<close> to \<open>c'\<close> only the batcher and the allocator have moved:
  the session is as it was, and the listeners taken in and the callbacks run are those of
  \<open>c\<close>, in the same order, with more at the end.
\<close>

definition batcher_only :: "client \<Rightarrow> client \<Rightarrow> bool" where
  "batcher_only c c' \<longleftrightarrow>
     root c' = root c \<and> menuproxy c' = menuproxy c \<and> name_owner c' = name_owner c \<and>
     layoutcall c' = layoutcall c \<and> current_revision c' = current_revision c \<and>
     my_revision c' = my_revision c \<and> call_seq c' = call_seq c \<and>
     layout_calls c' = layout_calls c \<and> layout_cancelled c' = layout_cancelled c \<and>
     signals c' = signals c \<and> next_inst c \<le> next_inst c' \<and>
     (delayed_property_listeners c \<noteq> None \<longrightarrow>
        delayed_property_listeners c' \<noteq> None \<and> segfault c' = segfault c) \<and>
     prefix (accepted c) (accepted c') \<and>
     prefix (callbacks_run c) (callbacks_run c')"

text \<open>Two runs of the main loop, from a new client.\<close>

definition ex_first_fetch :: "event list" where
  "ex_first_fetch = [Proxy_built True, Layout_returns 0 (LayoutReply 5 (Some ex_xml))]"

definition ex_stale_completion :: "event list" where
  "ex_stale_completion =
     [Proxy_built True, Name_owner_changed False, Name_owner_changed True,
      Layout_returns 0 (LayoutError (DBusError ''Operation was cancelled'')),
      Layout_updated 1]"

section \<open>Runs of requests\<close>

text \<open>
  The listener \<^verbatim>\<open>get_properties_globber\<close> builds for a request, and a run of requests made
  one after the other.
\<close>

definition listener_of :: "int \<times> callback \<Rightarrow> listener" where
  "listener_of r = \<lparr>lid = fst r, callback = snd r, replied = False\<rparr>"

fun globber_all :: "(int \<times> callback) list \<Rightarrow> client \<Rightarrow> client" where
  "globber_all [] c = c"
| "globber_all (r # rs) c = globber_all rs (get_properties_globber c (fst r) (snd r))"

text \<open>\<open>n\<close> requests with the ids 0 to \<open>n - 1\<close>, and a client with a proxy and an empty batch.\<close>

definition ex_requests :: "nat \<Rightarrow> (int \<times> callback) list" where
  "ex_requests n = map (\<lambda>k. (int k, Menuitem_get_properties_cb k)) [0..<n]"

definition ex_ready :: client where
  "ex_ready = dbusmenu_client_init\<lparr>menuproxy := True, name_owner := True\<rparr>"

section \<open>Reading a group response\<close>




definition mark :: "int set \<Rightarrow> listener \<Rightarrow> listener" where
  "mark S l = l\<lparr>replied := replied l \<or> lid l \<in> S\<rparr>"

text \<open>
  The listener array as \<^verbatim>\<open>get_properties_globber\<close> builds it: no id twice, no listener
  replied to.
\<close>

definition wellformed_batch :: "listener list \<Rightarrow> bool" where
  "wellformed_batch ls \<longleftrightarrow> distinct (map lid ls) \<and> (\<forall>l\<in>set ls. \<not> replied l)"

section \<open>What a reconciliation is to give\<close>



definition same_node :: "menuitem \<Rightarrow> menuitem \<Rightarrow> bool" where
  "same_node a b \<longleftrightarrow>
     mi_inst a = mi_inst b \<and> mi_id a = mi_id b \<and> mi_props a = mi_props b \<and>
     mi_root a = mi_root b \<and> mi_realized a = mi_realized b"

text \<open>
  The requests a reconciliation is to make of the batcher, as \<^verbatim>\<open>get_properties_globber\<close>
  takes them: the id of the child and the callback. \<open>valid_children\<close> are the XML children
  that \<^verbatim>\<open>parse_node_get_id\<close> accepts, those the loops of \<^verbatim>\<open>parse_layout_xml\<close> do not skip.
\<close>

definition requests_of :: "(menuitem \<times> callback) list \<Rightarrow> (int \<times> callback) list" where
  "requests_of R = map (\<lambda>(m, cb). (mi_id m, cb)) R"











section \<open>Properties of the batcher\<close>

lemma find_listener_None: "find_listener ls k i = None \<longleftrightarrow> i \<notin> lid ` set (drop k ls)"
proof (induction ls k i rule: find_listener.induct)
  case (1 listeners index i)
  show ?case
  proof (cases "index \<ge> length listeners")
    case True
    then show ?thesis by (simp add: find_listener.simps)
  next
    case False
    then have d: "drop index listeners = listeners ! index # drop (Suc index) listeners"
      by (simp add: Cons_nth_drop_Suc)
    show ?thesis
    proof (cases "lid (listeners ! index) = i")
      case True
      with False d show ?thesis by (simp add: find_listener.simps [of listeners index])
    next
      case neq: False
      with False d 1 show ?thesis by (simp add: find_listener.simps [of listeners index])
    qed
  qed
qed


text \<open>
  C6. A request for an id that is already queued calls the new callback with the error
  "ID already queued" and changes nothing else of the batch: the listener array, the idle
  source and the calls sent are as before, and the next tick sends the same group call and
  leaves the same array as it would have without the second request.
\<close>

theorem duplicate_request_rejected:
  assumes "delayed_property_listeners c = Some ls" and "i \<in> lid ` set ls"
  shows "callbacks_run (get_properties_globber c i cb) =
           callbacks_run c @ [(cb, Err (LocalError ''ID already queued''))] \<and>
         delayed_property_listeners (get_properties_globber c i cb) = Some ls \<and>
         delayed_idle (get_properties_globber c i cb) = delayed_idle c \<and>
         group_calls (get_properties_globber c i cb) = group_calls c \<and>
         group_calls (tick (get_properties_globber c i cb)) = group_calls (tick c) \<and>
         delayed_property_listeners (tick (get_properties_globber c i cb)) =
           delayed_property_listeners (tick c)"
proof -
  from assms(2) have "find_listener ls 0 i \<noteq> None"
    by (simp add: find_listener_None)
  with assms(1) have eq: "get_properties_globber c i cb =
      c\<lparr>warnings := warnings c @ [Asking_twice i],
        callbacks_run := callbacks_run c @ [(cb, Err (LocalError ''ID already queued''))]\<rparr>"
    by (auto simp: get_properties_globber_def call_callback_def g_warning_def)
  show ?thesis
    unfolding eq using assms(1)
    by (simp add: tick_def get_properties_idle_def g_warning_def)
qed

theorem duplicate_request_rejected_witness:
  "callbacks_run (get_properties_globber ex_pending 1 (Menuitem_get_properties_replace_cb 7)) =
     [(Menuitem_get_properties_replace_cb 7, Err (LocalError ''ID already queued''))] \<and>
   delayed_property_listeners (get_properties_globber ex_pending 1 (Menuitem_get_properties_replace_cb 7))
     = Some [ex_listener] \<and>
   group_calls (tick (get_properties_globber ex_pending 1 (Menuitem_get_properties_replace_cb 7)))
     = [([1], [ex_listener])]"
proof -
  have a: "delayed_property_listeners ex_pending = Some [ex_listener]"
    by (simp add: ex_pending_def)
  have b: "(1::int) \<in> lid ` set [ex_listener]"
    by (simp add: ex_listener_def)
  have t: "group_calls (tick ex_pending) = [([1], [ex_listener])]"
    by (simp add: tick_def get_properties_idle_def ex_pending_def ex_listener_def dbusmenu_client_init_def)
  have r: "callbacks_run ex_pending = []"
    by (simp add: ex_pending_def dbusmenu_client_init_def)
  show ?thesis
    using duplicate_request_rejected [OF a b, of "Menuitem_get_properties_replace_cb 7"] t r
    by simp
qed

section \<open>Properties of teardown\<close>

text \<open>
  C2. The code evaluated where the claim fails: a client is disposed of while one listener
  is queued and has had no reply. No callback is run, with the Shutdown error or any other:
  the block that would run it is entered only when the array pointer is NULL.
\<close>

theorem dispose_drops_unreplied_listener:
  "delayed_property_listeners ex_pending = Some [ex_listener] \<and> \<not> replied ex_listener \<and>
   callbacks_run (dbusmenu_client_dispose ex_pending) = [] \<and>
   delayed_property_listeners (dbusmenu_client_dispose ex_pending) = Some [ex_listener]"
  by (simp add: ex_pending_def ex_listener_def dbusmenu_client_dispose_def dbusmenu_client_init_def)

section \<open>Properties of the session\<close>

text \<open>
  C3. The code evaluated where the claim fails: the proxy is built and the first GetLayout
  call is sent; a LayoutUpdated signal with revision 2 arrives while it is in flight; the
  call returns revision 1. One call was sent before the reply and one call has been sent
  after it: no follow-up call was sent, none is in flight, and the client is left with
  \<open>my_revision = 1\<close> below \<open>current_revision = 2\<close>.
\<close>

theorem no_follow_up_layout_call:
  "feasible [Proxy_built True, Layout_updated 2, Layout_returns 0 (LayoutReply 1 (Some ex_xml))]
     dbusmenu_client_init \<and>
   call_seq (run [Proxy_built True] dbusmenu_client_init) = 1 \<and>
   call_seq (run [Proxy_built True, Layout_updated 2, Layout_returns 0 (LayoutReply 1 (Some ex_xml))]
     dbusmenu_client_init) = 1 \<and>
   layout_calls (run [Proxy_built True, Layout_updated 2, Layout_returns 0 (LayoutReply 1 (Some ex_xml))]
     dbusmenu_client_init) = [] \<and>
   my_revision (run [Proxy_built True, Layout_updated 2, Layout_returns 0 (LayoutReply 1 (Some ex_xml))]
     dbusmenu_client_init) = 1 \<and>
   current_revision (run [Proxy_built True, Layout_updated 2, Layout_returns 0 (LayoutReply 1 (Some ex_xml))]
     dbusmenu_client_init) = 2"
  by code_simp

section \<open>The reconciliation only moves the batcher\<close>

lemma batcher_only_refl [simp]: "batcher_only c c"
  by (simp add: batcher_only_def)

lemma batcher_only_trans: "batcher_only a b \<Longrightarrow> batcher_only b c \<Longrightarrow> batcher_only a c"
  unfolding batcher_only_def by (intro conjI; (auto)[1])

lemma batcher_only_idle: "batcher_only c (snd (get_properties_idle c))"
  by (auto simp: batcher_only_def get_properties_idle_def g_warning_def accepted_def pending_def
           split: option.splits)

lemma batcher_only_flush: "batcher_only c (get_properties_flush c)"
  by (auto simp: batcher_only_def get_properties_flush_def get_properties_idle_def g_warning_def
                 accepted_def pending_def split: option.splits)

lemma batcher_only_globber: "batcher_only c (get_properties_globber c i cb)"
proof (cases "delayed_property_listeners c")
  case None
  then show ?thesis
    by (simp add: get_properties_globber_def batcher_only_def accepted_def pending_def)
next
  case (Some ls)
  show ?thesis
  proof (cases "find_listener ls 0 i = None")
    case False
    with Some show ?thesis
      by (auto simp: get_properties_globber_def batcher_only_def accepted_def pending_def
                     call_callback_def g_warning_def)
  next
    case True
    define l where "l = \<lparr>lid = i, callback = cb, replied = False\<rparr>"
    define c2 where "c2 = (if delayed_idle c = 0
        then g_idle_add (c\<lparr>delayed_property_listeners := Some (ls @ [l])\<rparr>)
        else c\<lparr>delayed_property_listeners := Some (ls @ [l])\<rparr>)"
    have a: "batcher_only c c2"
      using Some by (auto simp: c2_def batcher_only_def accepted_def pending_def g_idle_add_def)
    have "get_properties_globber c i cb =
            (if length (ls @ [l]) = MAX_PROPERTIES_TO_QUEUE then get_properties_flush c2 else c2)"
      using Some True by (simp add: get_properties_globber_def Let_def c2_def l_def)
    then show ?thesis
      using a batcher_only_flush [of c2] by (auto intro: batcher_only_trans)
  qed
qed

lemma batcher_only_new_child: "batcher_only c (fst (parse_layout_new_child i c parent))"
proof -
  have "batcher_only c (c\<lparr>next_inst := Suc (next_inst c)\<rparr>)"
    by (simp add: batcher_only_def accepted_def pending_def)
  then show ?thesis
    unfolding parse_layout_new_child_def Let_def fst_conv
    by (rule batcher_only_trans) (rule batcher_only_globber)
qed

lemma batcher_only_update: "batcher_only c (parse_layout_update item c)"
  by (simp add: parse_layout_update_def batcher_only_globber)

lemma batcher_only_children:
  "batcher_only c (fst (parse_layout_xml_children kids position (c, item, old)))"
proof (induction kids arbitrary: position c item old)
  case Nil
  then show ?case by simp
next
  case (Cons x kids)
  show ?case
  proof (cases "parse_node_get_id (Some x) < 0")
    case True
    then show ?thesis using Cons by simp
  next
    case False
    show ?thesis
    proof (cases "find (\<lambda>cs_mi. parse_node_get_id (Some x) = mi_id cs_mi) old")
      case None
      obtain c1 m where nc: "parse_layout_new_child (parse_node_get_id (Some x)) c (Some item) = (c1, m)"
        by (cases "parse_layout_new_child (parse_node_get_id (Some x)) c (Some item)")
      with batcher_only_new_child [of c "parse_node_get_id (Some x)" "Some item"]
      have "batcher_only c c1" by simp
      then show ?thesis
        using False None nc Cons.IH batcher_only_trans by (fastforce simp: Let_def)
    next
      case (Some m)
      then show ?thesis
        using False Cons.IH batcher_only_trans batcher_only_update by (fastforce simp: Let_def)
    qed
  qed
qed

lemma batcher_only_parse_layout_xml:
  "batcher_only c (fst (parse_layout_xml c node item parent))"
  "batcher_only c (fst (parse_layout_xml_recurse c kids ms item))"
proof (induction c node item parent and c kids ms item
       rule: parse_layout_xml_parse_layout_xml_recurse.induct)
  case (1 c el nm attrs kids item parent)
  define i where "i = parse_node_get_id (Some (XmlNode el nm attrs kids))"
  show ?case
  proof (cases "i < 0 \<or> i \<noteq> mi_id item")
    case True
    then show ?thesis by (auto simp: i_def [symmetric] Let_def)
  next
    case False
    obtain c1 item1 old where lv: "parse_layout_xml_children kids 0 (c, item, mi_children item) = (c1, item1, old)"
      by (cases "parse_layout_xml_children kids 0 (c, item, mi_children item)")
    define c2 where "c2 = (if parent \<noteq> None \<and> mi_id (the parent) = 0 then get_properties_flush c1 else c1)"
    define item2 where "item2 = delete_oldchildren old item1"
    have a: "batcher_only c c1"
      using batcher_only_children [of c kids 0 item "mi_children item"] lv by simp
    have b: "batcher_only c1 c2"
      by (simp add: c2_def batcher_only_flush)
    have c: "batcher_only c2 (fst (parse_layout_xml_recurse c2 kids (mi_children item2) item2))"
      using 1 [OF i_def _ _ lv [symmetric] refl item2_def c2_def] False by simp
    have "fst (parse_layout_xml c (XmlNode el nm attrs kids) item parent) =
          fst (parse_layout_xml_recurse c2 kids (mi_children item2) item2)"
      using False lv by (simp add: i_def [symmetric] Let_def c2_def item2_def split: prod.splits)
    then show ?thesis
      using a b c batcher_only_trans by metis
  qed
next
  case (2 c childmis item)
  then show ?case by simp
next
  case (3 c children rest item)
  then show ?case by simp
next
  case (4 c children rest childmi childmis item)
  show ?case
  proof (cases "parse_node_get_id (Some children) < 0")
    case True
    then show ?thesis using 4 by simp
  next
    case False
    obtain c1 r where p: "parse_layout_xml c children childmi (Some item) = (c1, r)"
      by (cases "parse_layout_xml c children childmi (Some item)")
    have a: "batcher_only c c1" using 4(2) [OF False] p by simp
    have b: "batcher_only c1 (fst (parse_layout_xml_recurse c1 rest childmis item))"
      using 4(3) [OF False p [symmetric]] .
    show ?thesis
      using False p a b batcher_only_trans by (auto split: prod.splits)
  qed
qed

section \<open>Properties of the property callbacks\<close>

lemma remove_current_props_error: "remove_current_props ks True item = item"
  by (cases ks) simp_all

lemma mi_props_set_props [simp]: "mi_props (set_props item ps) = ps"
  by (simp add: set_props_def)

lemma set_props_twice [simp]: "set_props (set_props item ps) qs = set_props item qs"
  by (simp add: set_props_def)

lemma remove_current_props_props:
  "mi_props (remove_current_props ks False item) = filter (\<lambda>kv. fst kv \<notin> set ks) (mi_props item)"
  by (induction ks arbitrary: item) (auto simp: dbusmenu_menuitem_property_remove_def intro: filter_cong)

lemma mi_props_set_all:
  "mi_props item = mi_props item' \<Longrightarrow>
   mi_props (set_all_properties ps item) = mi_props (set_all_properties ps item')"
  by (induction ps arbitrary: item item') (auto simp: dbusmenu_menuitem_property_set_variant_def)

lemma keys_set_all:
  "fst ` set (mi_props (set_all_properties ps item)) = fst ` set (mi_props item) \<union> fst ` set ps"
proof (induction ps arbitrary: item)
  case Nil
  then show ?case by simp
next
  case (Cons kv ps)
  obtain k v where kv: "kv = (k, v)" by (cases kv)
  have "fst ` set (mi_props (dbusmenu_menuitem_property_set_variant item k v)) =
          insert k (fst ` set (mi_props item))"
    by (force simp: dbusmenu_menuitem_property_set_variant_def)
  then show ?case
    by (simp add: kv Cons.IH)
qed

text \<open>
  C10. When the fetch for a recycled item ends in an error the callback leaves the item as
  it was. When it succeeds, the properties of the item afterwards are those the reply sets
  on an item without properties: nothing of the old property map is left, and the keys are
  the keys of the reply.
\<close>

theorem replace_only_on_success:
  "menuitem_get_properties_replace_cb (Err e) item = item \<and>
   mi_props (menuitem_get_properties_replace_cb (Props ps) item) =
     mi_props (menuitem_get_properties_cb (Props ps) (set_props item [])) \<and>
   fst ` set (mi_props (menuitem_get_properties_replace_cb (Props ps) item)) = fst ` set ps"
proof -
  have e: "menuitem_get_properties_replace_cb (Err e) item = item"
    by (simp add: menuitem_get_properties_replace_cb_def remove_current_props_error)
  have "mi_props (remove_current_props (dbusmenu_menuitem_properties_list item) False item) = []"
    by (simp add: remove_current_props_props dbusmenu_menuitem_properties_list_def)
  then have s: "mi_props (menuitem_get_properties_replace_cb (Props ps) item) =
     mi_props (menuitem_get_properties_cb (Props ps) (set_props item []))"
    by (simp add: menuitem_get_properties_replace_cb_def menuitem_get_properties_cb_def mi_props_set_all)
  have "fst ` set (mi_props (menuitem_get_properties_cb (Props ps) (set_props item []))) = fst ` set ps"
    by (simp add: menuitem_get_properties_cb_def keys_set_all)
  with e s show ?thesis by simp
qed

section \<open>Properties of the layout calls\<close>

text \<open>
  C8. When the GetLayout call fails, the root (the whole tree) and both revisions are as
  before and \<open>layoutcall\<close> is cleared, so that the next \<^verbatim>\<open>update_layout\<close> of a client with a
  proxy and a name owner sends a call.
\<close>

theorem layout_error_keeps_tree:
  "root (update_layout_cb (LayoutError e) c) = root c \<and>
   my_revision (update_layout_cb (LayoutError e) c) = my_revision c \<and>
   current_revision (update_layout_cb (LayoutError e) c) = current_revision c \<and>
   layoutcall (update_layout_cb (LayoutError e) c) = None \<and>
   (menuproxy c \<and> name_owner c \<longrightarrow>
      layout_calls (update_layout (update_layout_cb (LayoutError e) c)) = layout_calls c @ [call_seq c])"
  by (simp add: update_layout_cb_def g_warning_def update_layout_def)

theorem layout_error_keeps_tree_witness:
  "menuproxy (ex_pending\<lparr>root := Some ex_item, layoutcall := Some 0\<rparr>) \<and>
   name_owner (ex_pending\<lparr>root := Some ex_item, layoutcall := Some 0\<rparr>) \<and>
   root (update_layout_cb (LayoutError (DBusError ''no reply''))
           (ex_pending\<lparr>root := Some ex_item, layoutcall := Some 0\<rparr>)) = Some ex_item \<and>
   layoutcall (update_layout_cb (LayoutError (DBusError ''no reply''))
           (ex_pending\<lparr>root := Some ex_item, layoutcall := Some 0\<rparr>)) = None \<and>
   layout_calls (update_layout (update_layout_cb (LayoutError (DBusError ''no reply''))
           (ex_pending\<lparr>root := Some ex_item, layoutcall := Some 0\<rparr>))) = [0]"
  using layout_error_keeps_tree [of "DBusError ''no reply''"
          "ex_pending\<lparr>root := Some ex_item, layoutcall := Some 0\<rparr>"]
  by (simp add: ex_pending_def dbusmenu_client_init_def)

lemma batcher_only_parse_layout:
  "current_revision (snd (parse_layout c layout)) = current_revision c \<and>
   layoutcall (snd (parse_layout c layout)) = layoutcall c \<and>
   fst (parse_layout c layout) = 1"
proof -
  define c0 where "c0 = (if layout = None then g_warning Unable_to_get_root_node c else c)"
  obtain c1 r where a: "(case root c0 of None \<Rightarrow> parse_layout_new_child 0 c0 None
               | Some r \<Rightarrow> (parse_layout_update r c0, r)) = (c1, r)"
    by (cases "(case root c0 of None \<Rightarrow> parse_layout_new_child 0 c0 None
               | Some r \<Rightarrow> (parse_layout_update r c0, r))")
  obtain c2 res where b: "(case layout of None \<Rightarrow> (c1, None)
                    | Some node \<Rightarrow> parse_layout_xml c1 node r None) = (c2, res)"
    by (cases "(case layout of None \<Rightarrow> (c1, None)
                    | Some node \<Rightarrow> parse_layout_xml c1 node r None)")
  have 0: "current_revision c0 = current_revision c \<and> layoutcall c0 = layoutcall c"
    by (simp add: c0_def g_warning_def)
  have "batcher_only c0 c1"
    using a batcher_only_new_child [of c0 0 None] batcher_only_update [of c0]
    by (auto split: option.splits)
  moreover have "batcher_only c1 c2"
  proof (cases layout)
    case None
    with b show ?thesis by simp
  next
    case (Some node)
    with b batcher_only_parse_layout_xml(1) [of c1 node r None] show ?thesis by simp
  qed
  ultimately have 2: "current_revision c2 = current_revision c \<and> layoutcall c2 = layoutcall c"
    using 0 by (simp add: batcher_only_def)
  show ?thesis
    using a b 2 unfolding parse_layout_def Let_def c0_def [symmetric]
    by (simp add: g_warning_def g_signal_emit_def)
qed

lemma update_layout_revisions:
  "current_revision (update_layout c) = current_revision c \<and>
   my_revision (update_layout c) = my_revision c"
  by (simp add: update_layout_def)

text \<open>What one handler does to the two revisions.\<close>

lemma step_revisions:
  "current_revision (step e c) = last_notice [e] (current_revision c) \<and>
   my_revision (step e c) = last_reply [e] (my_revision c)"
proof (cases e)
  case (Proxy_built owner)
  then show ?thesis
    by (simp add: menuproxy_build_cb_def Let_def update_layout_revisions)
next
  case (Name_owner_changed owner)
  then show ?thesis
    by (cases owner)
       (simp_all add: menuproxy_name_changed_cb_def Let_def update_layout_revisions
                      proxy_destroyed_def g_signal_emit_def split: option.splits)
next
  case (Layout_updated revision)
  then show ?thesis
    by (simp add: layout_update_def Let_def update_layout_revisions)
next
  case (Item_updated i)
  have "batcher_only c (id_update i c)"
    by (simp add: id_update_def batcher_only_globber split: option.splits)
  with Item_updated show ?thesis by (simp add: batcher_only_def)
next
  case Tick
  have "batcher_only c (tick c)"
    by (simp add: tick_def batcher_only_idle)
  with Tick show ?thesis by (simp add: batcher_only_def)
next
  case (Layout_returns t res)
  define c0 where "c0 = c\<lparr>layout_calls := remove1 t (layout_calls c)\<rparr>"
  have c0: "current_revision c0 = current_revision c" "my_revision c0 = my_revision c"
    by (simp_all add: c0_def)
  show ?thesis
  proof (cases res)
    case (LayoutError err)
    with Layout_returns show ?thesis
      by (simp add: layout_returns_def update_layout_cb_def g_warning_def)
  next
    case (LayoutReply revn xml)
    obtain p c1 where pl: "parse_layout c0 xml = (p, c1)"
      by (cases "parse_layout c0 xml")
    with batcher_only_parse_layout [of c0 xml]
    have "p = 1" and "current_revision c1 = current_revision c" by (simp_all add: c0)
    with Layout_returns LayoutReply pl show ?thesis
      by (simp add: layout_returns_def c0_def [symmetric] update_layout_cb_def Let_def
                    g_signal_emit_def update_layout_revisions)
  qed
qed

lemma last_notice_Cons: "last_notice (e # es) r = last_notice es (last_notice [e] r)"
  by (cases "(e # es, r)" rule: last_notice.cases) auto

lemma last_reply_Cons: "last_reply (e # es) r = last_reply es (last_reply [e] r)"
  by (cases "(e # es, r)" rule: last_reply.cases) auto

text \<open>
  C9, as amended. After every run of the main loop, from any state, settled or not:
  \<open>current_revision\<close> is the revision of the last LayoutUpdated signal and \<open>my_revision\<close> is
  the revision of the last GetLayout reply that was not an error, each of them 0 when the
  name has lost its owner since (and as at the start when the run has no such event).
  Nothing else relates the two: after a reply whose revision is above that of the last
  signal, \<open>my_revision\<close> is above \<open>current_revision\<close>.
\<close>

theorem revisions_are_last_reply_and_last_notice:
  "current_revision (run es c) = last_notice es (current_revision c) \<and>
   my_revision (run es c) = last_reply es (my_revision c)"
proof (induction es arbitrary: c)
  case Nil
  then show ?case by simp
next
  case (Cons e es)
  show ?case
    using Cons.IH [of "step e c"] step_revisions [of e c]
    by (simp add: last_notice_Cons [of e es] last_reply_Cons [of e es])
qed

text \<open>
  C9, the claim as stated fails: the proxy is built, the first GetLayout call is sent, and
  its reply carries revision 5. No call is in flight and no signal is waiting, and
  \<open>my_revision = 5\<close> is above \<open>current_revision = 0\<close>.
\<close>

theorem my_revision_above_current_revision:
  "feasible ex_first_fetch dbusmenu_client_init \<and>
   layoutcall (run ex_first_fetch dbusmenu_client_init) = None \<and>
   layout_calls (run ex_first_fetch dbusmenu_client_init) = [] \<and>
   \<not> (my_revision (run ex_first_fetch dbusmenu_client_init) <=s
        current_revision (run ex_first_fetch dbusmenu_client_init))"
  by code_simp

text \<open>A refresh asked for while \<open>layoutcall\<close> is set sends nothing.\<close>

lemma update_layout_marked_noop: "layoutcall c \<noteq> None \<Longrightarrow> update_layout c = c"
  by (simp add: update_layout_def)

text \<open>
  C4. The code evaluated where the claim fails: the first GetLayout call (0) is cancelled by
  \<^verbatim>\<open>proxy_destroyed\<close> when the name loses its owner; the owner comes back and call 1 is sent;
  the cancelled call 0 then completes with its error, and \<^verbatim>\<open>update_layout_cb\<close> clears
  \<open>layoutcall\<close>, which marks call 1; the next LayoutUpdated signal sends call 2. Calls 1 and 2
  are both in flight, and neither was cancelled.
\<close>

theorem two_layout_calls_in_flight:
  "feasible ex_stale_completion dbusmenu_client_init \<and>
   layout_calls (run ex_stale_completion dbusmenu_client_init) = [1, 2] \<and>
   layout_cancelled (run ex_stale_completion dbusmenu_client_init) = [0]"
  by code_simp

section \<open>The batch and its cap\<close>

lemma lid_listener_of [simp]: "lid (listener_of r) = fst r"
  by (simp add: listener_of_def)

lemma globber_all_append: "globber_all (rs @ qs) c = globber_all qs (globber_all rs c)"
  by (induction rs arbitrary: c) simp_all

text \<open>One request for an id that is not queued, below the cap: the listener is appended.\<close>

lemma globber_below_cap:
  assumes "delayed_property_listeners c = Some ls" and "i \<notin> lid ` set ls"
    and "Suc (length ls) < MAX_PROPERTIES_TO_QUEUE"
  shows "delayed_property_listeners (get_properties_globber c i cb) = Some (ls @ [listener_of (i, cb)]) \<and>
         group_calls (get_properties_globber c i cb) = group_calls c \<and>
         callbacks_run (get_properties_globber c i cb) = callbacks_run c \<and>
         menuproxy (get_properties_globber c i cb) = menuproxy c \<and>
         delayed_idle (get_properties_globber c i cb) \<noteq> 0"
proof -
  from assms(2) have "find_listener ls 0 i = None"
    by (simp add: find_listener_None)
  with assms(1,3) show ?thesis
    by (simp add: get_properties_globber_def Let_def g_idle_add_def listener_of_def)
qed

text \<open>The request that fills the batch: the batch is sent at once.\<close>

lemma globber_at_cap:
  assumes "delayed_property_listeners c = Some ls" and "i \<notin> lid ` set ls"
    and "Suc (length ls) = MAX_PROPERTIES_TO_QUEUE" and "menuproxy c"
  shows "delayed_property_listeners (get_properties_globber c i cb) = Some [] \<and>
         group_calls (get_properties_globber c i cb) =
           group_calls c @ [(map lid ls @ [i], ls @ [listener_of (i, cb)])] \<and>
         callbacks_run (get_properties_globber c i cb) = callbacks_run c \<and>
         menuproxy (get_properties_globber c i cb) \<and>
         delayed_idle (get_properties_globber c i cb) = 0"
proof -
  from assms(2) have "find_listener ls 0 i = None"
    by (simp add: find_listener_None)
  with assms(1,3,4) show ?thesis
    by (simp add: get_properties_globber_def Let_def g_idle_add_def listener_of_def
                  get_properties_flush_def get_properties_idle_def)
qed

lemma globber_all_below_cap:
  assumes "delayed_property_listeners c = Some ls"
    and "distinct (map lid ls @ map fst rs)"
    and "length ls + length rs < MAX_PROPERTIES_TO_QUEUE"
  shows "delayed_property_listeners (globber_all rs c) = Some (ls @ map listener_of rs) \<and>
         group_calls (globber_all rs c) = group_calls c \<and>
         callbacks_run (globber_all rs c) = callbacks_run c \<and>
         menuproxy (globber_all rs c) = menuproxy c \<and>
         (rs \<noteq> [] \<longrightarrow> delayed_idle (globber_all rs c) \<noteq> 0)"
  using assms
proof (induction rs arbitrary: c ls)
  case Nil
  then show ?case by simp
next
  case (Cons r rs)
  obtain i cb where r: "r = (i, cb)" by (cases r)
  define c1 where "c1 = get_properties_globber c i cb"
  have fresh: "i \<notin> lid ` set ls" using Cons.prems(2) r by auto
  have len: "Suc (length ls) < MAX_PROPERTIES_TO_QUEUE" using Cons.prems(3) by simp
  note s = globber_below_cap [OF Cons.prems(1) fresh len, of cb, folded c1_def]
  have d: "distinct (map lid (ls @ [listener_of (i, cb)]) @ map fst rs)"
    using Cons.prems(2) r by auto
  have l: "length (ls @ [listener_of (i, cb)]) + length rs < MAX_PROPERTIES_TO_QUEUE"
    using Cons.prems(3) by simp
  note ih = Cons.IH [OF conjunct1 [OF s] d l]
  show ?case
  proof (cases "rs = []")
    case True
    with s show ?thesis by (simp add: r c1_def)
  next
    case False
    with ih s show ?thesis by (simp add: r c1_def)
  qed
qed

lemma globber_all_at_cap:
  assumes "delayed_property_listeners c = Some []" and "distinct (map fst rs)"
    and "length rs = MAX_PROPERTIES_TO_QUEUE" and "menuproxy c"
  shows "delayed_property_listeners (globber_all rs c) = Some [] \<and>
         group_calls (globber_all rs c) = group_calls c @ [(map fst rs, map listener_of rs)] \<and>
         callbacks_run (globber_all rs c) = callbacks_run c \<and>
         delayed_idle (globber_all rs c) = 0"
proof -
  have ne: "rs \<noteq> []" using assms(3) by (auto simp: MAX_PROPERTIES_TO_QUEUE_def)
  define qs where "qs = butlast rs"
  obtain i cb where lst: "last rs = (i, cb)" by (cases "last rs")
  have rs: "rs = qs @ [(i, cb)]"
    using ne lst append_butlast_last_id [of rs] by (simp add: qs_def)
  have d: "distinct (map lid [] @ map fst qs)" using assms(2) rs by simp
  have l: "length ([]::listener list) + length qs < MAX_PROPERTIES_TO_QUEUE"
    using assms(3) rs by simp
  note b = globber_all_below_cap [OF assms(1) d l]
  have fresh: "i \<notin> lid ` set (map listener_of qs)"
    using assms(2) rs by (auto simp: image_iff)
  have len: "Suc (length (map listener_of qs)) = MAX_PROPERTIES_TO_QUEUE"
    using assms(3) rs by simp
  have pen: "delayed_property_listeners (globber_all qs c) = Some (map listener_of qs)"
    using b by simp
  have mp: "menuproxy (globber_all qs c)" using b assms(4) by simp
  note a = globber_at_cap [OF pen fresh len mp, of cb]
  have m: "map lid (map listener_of qs) = map fst qs" by (simp add: comp_def)
  show ?thesis
    using a b by (simp add: rs globber_all_append m)
qed

lemma ex_requests_facts:
  "distinct (map fst (ex_requests n))" "length (ex_requests n) = n"
  by (simp_all add: ex_requests_def comp_def distinct_map inj_on_def)

text \<open>
  C5, as amended. From an empty batch with no idle source, on a client with a proxy, and
  for requests with distinct ids:
  fewer than 100 requests send nothing themselves and leave the idle source scheduled, and
  the tick then sends exactly one group call, with all their ids, and empties the batch;
  the 100th request itself sends the group call with all 100 ids at once, leaving an empty
  batch and no idle source; a 101st request sends nothing: it is queued alone in the new
  batch, with a new idle source.
\<close>

theorem batch_flushes_at_cap:
  assumes "delayed_property_listeners c = Some []" and "delayed_idle c = 0" and "menuproxy c"
    and "distinct (map fst rs)" and "rs \<noteq> []"
  shows "(length rs < MAX_PROPERTIES_TO_QUEUE \<longrightarrow>
            group_calls (globber_all rs c) = group_calls c \<and>
            delayed_idle (globber_all rs c) \<noteq> 0 \<and>
            group_calls (tick (globber_all rs c)) = group_calls c @ [(map fst rs, map listener_of rs)] \<and>
            delayed_property_listeners (tick (globber_all rs c)) = Some [] \<and>
            delayed_idle (tick (globber_all rs c)) = 0) \<and>
         (length rs = MAX_PROPERTIES_TO_QUEUE \<longrightarrow>
            group_calls (globber_all rs c) = group_calls c @ [(map fst rs, map listener_of rs)] \<and>
            delayed_property_listeners (globber_all rs c) = Some [] \<and>
            delayed_idle (globber_all rs c) = 0 \<and>
            group_calls (get_properties_globber (globber_all rs c) i cb) = group_calls (globber_all rs c) \<and>
            delayed_property_listeners (get_properties_globber (globber_all rs c) i cb) =
              Some [listener_of (i, cb)] \<and>
            delayed_idle (get_properties_globber (globber_all rs c) i cb) \<noteq> 0)"
proof (intro conjI impI)
  assume l: "length rs < MAX_PROPERTIES_TO_QUEUE"
  have d: "distinct (map lid [] @ map fst rs)" using assms(4) by simp
  have l': "length ([]::listener list) + length rs < MAX_PROPERTIES_TO_QUEUE" using l by simp
  note b = globber_all_below_cap [OF assms(1) d l']
  show "group_calls (globber_all rs c) = group_calls c" using b by simp
  show "delayed_idle (globber_all rs c) \<noteq> 0" using b assms(5) by simp
  have m: "map lid (map listener_of rs) = map fst rs" by (simp add: comp_def)
  show "group_calls (tick (globber_all rs c)) = group_calls c @ [(map fst rs, map listener_of rs)]"
    using b assms(3,5) by (simp add: tick_def get_properties_idle_def m)
  show "delayed_property_listeners (tick (globber_all rs c)) = Some []"
    using b assms(3,5) by (simp add: tick_def get_properties_idle_def)
  show "delayed_idle (tick (globber_all rs c)) = 0"
    using b assms(3,5) by (simp add: tick_def get_properties_idle_def)
next
  assume l: "length rs = MAX_PROPERTIES_TO_QUEUE"
  note a = globber_all_at_cap [OF assms(1) assms(4) l assms(3)]
  show "group_calls (globber_all rs c) = group_calls c @ [(map fst rs, map listener_of rs)]"
    using a by simp
  show "delayed_property_listeners (globber_all rs c) = Some []" using a by simp
  show "delayed_idle (globber_all rs c) = 0" using a by simp
  have p: "delayed_property_listeners (globber_all rs c) = Some []" using a by simp
  have f: "i \<notin> lid ` set []" by simp
  have s: "Suc (length ([]::listener list)) < MAX_PROPERTIES_TO_QUEUE"
    by (simp add: MAX_PROPERTIES_TO_QUEUE_def)
  note n = globber_below_cap [OF p f s, of cb]
  show "group_calls (get_properties_globber (globber_all rs c) i cb) = group_calls (globber_all rs c)"
    using n by simp
  show "delayed_property_listeners (get_properties_globber (globber_all rs c) i cb) =
              Some [listener_of (i, cb)]"
    using n by simp
  show "delayed_idle (get_properties_globber (globber_all rs c) i cb) \<noteq> 0"
    using n by simp
qed

lemma ex_ready_facts:
  "delayed_property_listeners ex_ready = Some []" "delayed_idle ex_ready = 0" "menuproxy ex_ready"
  "group_calls ex_ready = []"
  by (simp_all add: ex_ready_def dbusmenu_client_init_def)

lemma ex_requests_ne: "0 < n \<Longrightarrow> ex_requests n \<noteq> []"
  by (simp add: ex_requests_def)

theorem batch_flushes_at_cap_witness:
  "group_calls (globber_all (ex_requests 3) ex_ready) = [] \<and>
   group_calls (tick (globber_all (ex_requests 3) ex_ready)) =
     [(map fst (ex_requests 3), map listener_of (ex_requests 3))] \<and>
   group_calls (globber_all (ex_requests 100) ex_ready) =
     [(map fst (ex_requests 100), map listener_of (ex_requests 100))] \<and>
   delayed_property_listeners
     (get_properties_globber (globber_all (ex_requests 100) ex_ready) 100 (Menuitem_get_properties_cb 100)) =
     Some [listener_of (100, Menuitem_get_properties_cb 100)]"
proof -
  have n3: "ex_requests 3 \<noteq> []" and n100: "ex_requests 100 \<noteq> []"
    by (simp_all add: ex_requests_ne)
  have l3: "length (ex_requests 3) < MAX_PROPERTIES_TO_QUEUE"
    and l100: "length (ex_requests 100) = MAX_PROPERTIES_TO_QUEUE"
    by (simp_all add: ex_requests_facts MAX_PROPERTIES_TO_QUEUE_def)
  show ?thesis
    using batch_flushes_at_cap [OF ex_ready_facts(1,2,3) ex_requests_facts(1) n3]
          batch_flushes_at_cap [OF ex_ready_facts(1,2,3) ex_requests_facts(1) n100,
                                of 100 "Menuitem_get_properties_cb 100"]
          l3 l100
    by (simp add: ex_ready_facts(4))
qed

text \<open>
  C5, the claim as stated fails at 100 requests. The group call is sent by the 100th request
  and not on a tick: after it no idle source is scheduled. The 101st request triggers no
  flush: it sends no group call.
\<close>

theorem hundredth_request_flushes:
  "group_calls (globber_all (ex_requests 99) ex_ready) = [] \<and>
   group_calls (globber_all (ex_requests 100) ex_ready) =
     [(map fst (ex_requests 100), map listener_of (ex_requests 100))] \<and>
   delayed_idle (globber_all (ex_requests 100) ex_ready) = 0 \<and>
   tick (globber_all (ex_requests 100) ex_ready) = globber_all (ex_requests 100) ex_ready \<and>
   group_calls (get_properties_globber (globber_all (ex_requests 100) ex_ready) 100
                  (Menuitem_get_properties_cb 100)) =
     group_calls (globber_all (ex_requests 100) ex_ready)"
proof -
  have d99: "distinct (map lid [] @ map fst (ex_requests 99))"
    by (simp add: ex_requests_facts)
  have l99: "length ([]::listener list) + length (ex_requests 99) < MAX_PROPERTIES_TO_QUEUE"
    by (simp add: ex_requests_facts MAX_PROPERTIES_TO_QUEUE_def)
  note a = globber_all_below_cap [OF ex_ready_facts(1) d99 l99]
  have l100: "length (ex_requests 100) = MAX_PROPERTIES_TO_QUEUE"
    by (simp add: ex_requests_facts MAX_PROPERTIES_TO_QUEUE_def)
  note b = globber_all_at_cap [OF ex_ready_facts(1) ex_requests_facts(1) l100 ex_ready_facts(3)]
  have p: "delayed_property_listeners (globber_all (ex_requests 100) ex_ready) = Some []"
    using b by simp
  have f: "(100::int) \<notin> lid ` set []" by simp
  have s: "Suc (length ([]::listener list)) < MAX_PROPERTIES_TO_QUEUE"
    by (simp add: MAX_PROPERTIES_TO_QUEUE_def)
  note n = globber_below_cap [OF p f s, of "Menuitem_get_properties_cb 100"]
  show ?thesis
    using a b n by (simp add: ex_ready_facts(4) tick_def)
qed

section \<open>The callback of a group call\<close>

text \<open>
  Every request keeps the batch, and the arrays of the group calls sent, without a repeated
  id and without a replied listener: this is the array \<^verbatim>\<open>get_properties_callback\<close> is given.
\<close>

lemma wellformed_batch_globber:
  assumes "delayed_property_listeners c = Some ls" and "wellformed_batch ls"
    and "\<forall>g\<in>set (group_calls c). wellformed_batch (snd g)"
  shows "wellformed_batch (pending (get_properties_globber c i cb)) \<and>
         (\<forall>g\<in>set (group_calls (get_properties_globber c i cb)). wellformed_batch (snd g))"
proof (cases "find_listener ls 0 i = None")
  case False
  with assms show ?thesis
    by (auto simp: get_properties_globber_def pending_def call_callback_def g_warning_def)
next
  case True
  then have "i \<notin> lid ` set ls" by (simp add: find_listener_None)
  with assms(2) have w: "wellformed_batch (ls @ [\<lparr>lid = i, callback = cb, replied = False\<rparr>])"
    by (auto simp: wellformed_batch_def)
  have e: "wellformed_batch []" by (simp add: wellformed_batch_def)
  show ?thesis
    using assms(1,3) True w e
    by (auto simp: get_properties_globber_def Let_def pending_def g_idle_add_def
                   get_properties_flush_def get_properties_idle_def g_warning_def)
qed







lemma mark_empty [simp]: "map (mark {}) ls = ls"
  by (induction ls) (simp_all add: mark_def)

lemma mark_compose: "map (mark S) (map (mark T) ls) = map (mark (T \<union> S)) ls"
  by (auto simp: mark_def)

lemma lid_mark [simp]: "map lid (map (mark S) ls) = map lid ls"
  by (simp add: mark_def comp_def)













section \<open>Properties of the reconciliation\<close>

lemma same_node_refl [simp]: "same_node a a"
  by (simp add: same_node_def)


lemma same_node_sym: "same_node a b \<Longrightarrow> same_node b a"
  by (simp add: same_node_def)

lemma same_node_set_children [simp]: "same_node a (set_children b cs) = same_node a b"
  by (simp add: same_node_def set_children_def)

lemma mi_children_set_children [simp]: "mi_children (set_children a cs) = cs"
  by (simp add: set_children_def)

lemma next_inst_flush [simp]: "next_inst (get_properties_flush c) = next_inst c"
  by (simp add: get_properties_flush_def get_properties_idle_def g_warning_def split: option.splits)

lemma next_inst_globber [simp]: "next_inst (get_properties_globber c i cb) = next_inst c"
  by (simp add: get_properties_globber_def Let_def g_idle_add_def call_callback_def g_warning_def
           split: option.splits)












lemma pending_Some: "delayed_property_listeners c = Some ls \<Longrightarrow> pending c = ls"
  by (simp add: pending_def)




section \<open>What one request does to the history\<close>

lemma accepted_next_inst [simp]:
  "accepted (c\<lparr>next_inst := n\<rparr>) = accepted c" "pending (c\<lparr>next_inst := n\<rparr>) = pending c"
  by (simp_all add: accepted_def pending_def)

lemma accepted_flush [simp]: "accepted (get_properties_flush c) = accepted c"
  by (auto simp: accepted_def pending_def get_properties_flush_def get_properties_idle_def
                 g_warning_def split: option.splits)









lemma requests_of_Cons [simp]:
  "requests_of ((m, cb) # R) = (mi_id m, cb) # requests_of R" "requests_of [] = []"
  by (simp_all add: requests_of_def)











lemma batcher_only_array:
  "batcher_only c c' \<Longrightarrow> delayed_property_listeners c \<noteq> None \<Longrightarrow> delayed_property_listeners c' \<noteq> None"
  by (simp add: batcher_only_def)






end
